theory Spec2Isabelle
  imports Complex_Main "HOL-Library.Word" "HOL-Library.Sublist"
begin

unbundle bit_operations_syntax

section \<open>Python values used by service.py\<close>

text \<open>
  A Python \<open>str\<close> is a sequence of Unicode code points, a \<open>bytes\<close> object a sequence of
  octets. Literals of the source are written with \<open>py\<close>.
\<close>

type_synonym str = "nat list"
type_synonym bytes = "8 word list"
type_synonym path = str

definition py :: "string \<Rightarrow> str" where
  "py s = map of_char s"

definition nl :: str where
  "nl = [10]"

definition apos :: str where
  "apos = [39]"

text \<open>
  What \<open>yaml.safe_load\<close> can return: the value bound to \<open>cfg\<close>. A Python float is
  a \<open>real\<close> here: the source passes floats on (the temperature, the score) and computes
  nothing with them.
\<close>

datatype pyval =
    PyNone
  | PyBool bool
  | PyInt int
  | PyFloat real
  | PyStr str
  | PyList "pyval list"
  | PyDict "(pyval \<times> pyval) list"

text \<open>
  The exceptions that reach a handler of service.py. All of them are subclasses of
  \<open>Exception\<close>; \<open>CalledProcessError\<close> carries the exit status and the command,
  \<open>HTTPException\<close> the status code and the detail.
\<close>

datatype exn =
    CalledProcessError int "str list"
  | KeyError str
  | TypeError pyval
  | AttributeError pyval
  | IndexError
  | UnicodeDecodeError
  | FileNotFoundError path
  | PermissionError path
  | OSError str
  | ImportError str
  | Exception str
  | HTTPException nat str

text \<open>\<open>str(n)\<close> for an integer: decimal digits, with a minus sign when negative.\<close>

function str_nat :: "nat \<Rightarrow> str" where
  "str_nat n = (if n < 10 then [48 + n] else str_nat (n div 10) @ [48 + n mod 10])"
  by pat_completeness auto
termination
  by (relation "measure (\<lambda>n. n)") auto

declare str_nat.simps [simp del]

definition str_int :: "int \<Rightarrow> str" where
  "str_int i = (if i < 0 then 45 # str_nat (nat (- i)) else str_nat (nat i))"

text \<open>
  \<open>str(e)\<close>. A \<open>KeyError\<close> prints the \<open>repr\<close> of its key: for a key of printable
  ASCII characters without apostrophe or backslash (such as \<open>rules\<close> and \<open>ai_review\<close>,
  the keys the source looks up) that is the key between apostrophes, and for any other key
  it is left to the parameter \<open>fmt\<close>; Starlette's \<open>HTTPException.__str__\<close> returns
  \<open>f"{status_code}: {detail}"\<close>; an exception raised with a message prints the message.
  The texts that the standard library formats itself (\<open>CalledProcessError\<close>,
  \<open>TypeError\<close>, ...) are left to the parameter \<open>fmt\<close>.
\<close>

definition plain_key :: "str \<Rightarrow> bool" where
  "plain_key k = list_all (\<lambda>c. 32 \<le> c \<and> c < 127 \<and> c \<noteq> 39 \<and> c \<noteq> 92) k"

definition str_exn :: "(exn \<Rightarrow> str) \<Rightarrow> exn \<Rightarrow> str" where
  "str_exn fmt e =
     (case e of
        KeyError k \<Rightarrow> if plain_key k then apos @ k @ apos else fmt e
      | HTTPException status detail \<Rightarrow> str_nat status @ py '': '' @ detail
      | OSError m \<Rightarrow> m
      | ImportError m \<Rightarrow> m
      | Exception m \<Rightarrow> m
      | _ \<Rightarrow> fmt e)"

text \<open>\<open>d[k]\<close> and \<open>d.get(k, default)\<close> on a loaded YAML value.\<close>

definition subscript :: "pyval \<Rightarrow> str \<Rightarrow> exn + pyval" where
  "subscript d k =
     (case d of
        PyDict kvs \<Rightarrow> (case map_of kvs (PyStr k) of Some v \<Rightarrow> Inr v | None \<Rightarrow> Inl (KeyError k))
      | _ \<Rightarrow> Inl (TypeError d))"

definition get :: "pyval \<Rightarrow> str \<Rightarrow> pyval \<Rightarrow> exn + pyval" where
  "get d k dflt =
     (case d of
        PyDict kvs \<Rightarrow> (case map_of kvs (PyStr k) of Some v \<Rightarrow> Inr v | None \<Rightarrow> Inr dflt)
      | _ \<Rightarrow> Inl (AttributeError d))"

text \<open>\<open>sep.join(xs)\<close>.\<close>

fun join :: "str \<Rightarrow> str list \<Rightarrow> str" where
  "join sep [] = []"
| "join sep [x] = x"
| "join sep (x # y # ys) = x @ sep @ join sep (y # ys)"

text \<open>
  \<open>str.strip()\<close> removes leading and trailing white space: the code points for which
  \<open>str.isspace\<close> holds.
\<close>

definition isspace :: "nat \<Rightarrow> bool" where
  "isspace c \<longleftrightarrow>
     (9 \<le> c \<and> c \<le> 13) \<or> (28 \<le> c \<and> c \<le> 32) \<or> c = 133 \<or> c = 160 \<or> c = 5760
     \<or> (8192 \<le> c \<and> c \<le> 8202) \<or> c = 8232 \<or> c = 8233 \<or> c = 8239 \<or> c = 8287 \<or> c = 12288"

definition lstrip :: "str \<Rightarrow> str" where
  "lstrip s = dropWhile isspace s"

definition rstrip :: "str \<Rightarrow> str" where
  "rstrip s = rev (dropWhile isspace (rev s))"

definition strip :: "str \<Rightarrow> str" where
  "strip s = rstrip (lstrip s)"

section \<open>The inline-suggestion endpoint\<close>

record InlineSuggestionRequest =
  fileName :: str
  line :: str
  lineNumber :: int
  fullFile :: "str list"

record InlineSuggestionResponse =
  suggestedText :: str

text \<open>
  The chat-completion call and its answer. \<open>getattr(x, "message", None)\<close> and
  \<open>getattr(x, "content", None)\<close> read an attribute that may be missing or \<open>None\<close>.
\<close>

record create_kwargs =
  model :: pyval
  messages :: "(str \<times> str) list"
  temperature :: pyval
  max_tokens :: int

record ChatMessage =
  content :: "str option"

record Choice =
  message :: "ChatMessage option"

record ChatCompletion =
  choices :: "Choice list"

text \<open>
  \<open>import openai\<close> either fails or gives the client, whose
  \<open>chat.completions.create\<close> either raises or returns a completion.
\<close>

type_synonym openai = "exn + (create_kwargs \<Rightarrow> exn + ChatCompletion)"

definition prompt :: "InlineSuggestionRequest \<Rightarrow> str" where
  "prompt req =
     py ''You are a senior Python code reviewer.'' @ nl
     @ py ''Given the following file named '' @ apos @ fileName req @ apos
     @ py '', review line '' @ str_int (lineNumber req) @ py '':'' @ nl
     @ py ''    '' @ line req @ nl
     @ py ''Here is the complete file context:'' @ nl
     @ join nl (fullFile req)
     @ nl @ nl
     @ py ''Suggest an improved version of the given line, optionally with a helpful inline code comment. Respond ONLY with the suggested code.''"

text \<open>The body of the \<open>try\<close> block of \<open>inline_suggestion\<close> (lines 113 to 136).\<close>

definition inline_suggestion_body ::
  "openai \<Rightarrow> pyval \<Rightarrow> InlineSuggestionRequest \<Rightarrow> exn + InlineSuggestionResponse" where
  "inline_suggestion_body openai cfg req =
     (case openai of
        Inl e \<Rightarrow> Inl e
      | Inr create \<Rightarrow>
     (case get cfg (py ''ai_review'') (PyDict []) of
        Inl e \<Rightarrow> Inl e
      | Inr sec \<Rightarrow>
     (case get sec (py ''model'') (PyStr (py ''gpt-4o-mini'')) of
        Inl e \<Rightarrow> Inl e
      | Inr m \<Rightarrow>
     (case get cfg (py ''ai_review'') (PyDict []) of
        Inl e \<Rightarrow> Inl e
      | Inr sec' \<Rightarrow>
     (case get sec' (py ''temperature'') (PyFloat 0.2) of
        Inl e \<Rightarrow> Inl e
      | Inr t \<Rightarrow>
     (case create \<lparr>model = m, messages = [(py ''user'', prompt req)],
                   temperature = t, max_tokens = 100\<rparr> of
        Inl e \<Rightarrow> Inl e
      | Inr response \<Rightarrow>
     (case choices response of
        [] \<Rightarrow> Inl IndexError
      | choice # _ \<Rightarrow>
          (let msg = message choice;
               cont = (case msg of None \<Rightarrow> None | Some m \<Rightarrow> content m)
           in if cont = None \<or> cont = Some []
              then Inl (HTTPException 500 (py ''No suggestion returned from AI model.''))
              else Inr \<lparr>suggestedText = strip (the cont)\<rparr>))))))))"

text \<open>
  The endpoint: \<open>except Exception as e\<close> catches whatever the body raises, the
  \<open>HTTPException\<close> of line 134 included (it is a subclass of \<open>Exception\<close>), and raises
  \<open>HTTPException(status_code=500, detail=str(e))\<close>.
\<close>

definition inline_suggestion ::
  "(exn \<Rightarrow> str) \<Rightarrow> openai \<Rightarrow> pyval \<Rightarrow> InlineSuggestionRequest \<Rightarrow> exn + InlineSuggestionResponse" where
  "inline_suggestion fmt openai cfg req =
     (case inline_suggestion_body openai cfg req of
        Inl e \<Rightarrow> Inl (HTTPException 500 (str_exn fmt e))
      | Inr r \<Rightarrow> Inr r)"

section \<open>Decoding the output of git diff\<close>

text \<open>
  \<open>bytes.decode("utf-8", errors=...)\<close> as CPython's UTF-8 codec does it. The scan of one
  sequence at the head of the input gives the number of bytes it spans and the code point
  they encode, or no code point when the bytes are ill-formed: an invalid start byte spans
  one byte, an invalid continuation byte or an unexpected end of data spans the well-formed
  prefix read so far. Over-long forms, surrogates (\<open>ED A0..BF\<close>) and code points beyond
  \<open>U+10FFFF\<close> are ill-formed.
\<close>

definition is_continuation :: "8 word \<Rightarrow> bool" where
  "is_continuation b \<longleftrightarrow> 0x80 \<le> b \<and> b < 0xC0"

definition low_bits :: "8 word \<Rightarrow> 8 word \<Rightarrow> nat" where
  "low_bits m b = unat (b AND m)"

definition utf8_scan :: "8 word \<Rightarrow> bytes \<Rightarrow> nat \<times> nat option" where
  "utf8_scan ch s =
     (if ch < 0x80 then (1, Some (unat ch))
      else if ch < 0xC2 then (1, None)
      else if ch < 0xE0 then
        (case s of
           [] \<Rightarrow> (1, None)
         | ch2 # _ \<Rightarrow>
             if \<not> is_continuation ch2 then (1, None)
             else (2, Some (low_bits 0x1F ch * 64 + low_bits 0x3F ch2)))
      else if ch < 0xF0 then
        (case s of
           [] \<Rightarrow> (1, None)
         | ch2 # s2 \<Rightarrow>
             if \<not> is_continuation ch2 \<or> (if ch2 < 0xA0 then ch = 0xE0 else ch = 0xED)
             then (1, None)
             else
               (case s2 of
                  [] \<Rightarrow> (2, None)
                | ch3 # _ \<Rightarrow>
                    if \<not> is_continuation ch3 then (2, None)
                    else (3, Some (low_bits 0x0F ch * 4096 + low_bits 0x3F ch2 * 64
                                   + low_bits 0x3F ch3))))
      else if ch < 0xF5 then
        (case s of
           [] \<Rightarrow> (1, None)
         | ch2 # s2 \<Rightarrow>
             if \<not> is_continuation ch2 \<or> (if ch2 < 0x90 then ch = 0xF0 else ch = 0xF4)
             then (1, None)
             else
               (case s2 of
                  [] \<Rightarrow> (2, None)
                | ch3 # s3 \<Rightarrow>
                    if \<not> is_continuation ch3 then (2, None)
                    else
                      (case s3 of
                         [] \<Rightarrow> (3, None)
                       | ch4 # _ \<Rightarrow>
                           if \<not> is_continuation ch4 then (3, None)
                           else (4, Some (low_bits 0x07 ch * 262144 + low_bits 0x3F ch2 * 4096
                                          + low_bits 0x3F ch3 * 64 + low_bits 0x3F ch4)))))
      else (1, None))"

text \<open>
  The error handlers: \<open>strict\<close> raises \<open>UnicodeDecodeError\<close>, \<open>ignore\<close> skips the
  ill-formed bytes, \<open>replace\<close> puts \<open>U+FFFD\<close> in their place. Each resumes after the
  bytes the error spans.
\<close>

datatype errors = Strict | Ignore | Replace

fun decode :: "errors \<Rightarrow> bytes \<Rightarrow> exn + str" where
  "decode h [] = Inr []"
| "decode h (ch # s) =
     (case utf8_scan ch s of
        (n, Some c) \<Rightarrow>
          (case decode h (drop (n - 1) s) of Inl e \<Rightarrow> Inl e | Inr t \<Rightarrow> Inr (c # t))
      | (n, None) \<Rightarrow>
          (case h of
             Strict \<Rightarrow> Inl UnicodeDecodeError
           | Ignore \<Rightarrow> decode h (drop (n - 1) s)
           | Replace \<Rightarrow>
               (case decode h (drop (n - 1) s) of Inl e \<Rightarrow> Inl e | Inr t \<Rightarrow> Inr (0xFFFD # t))))"

section \<open>The workspace and its deletion\<close>

text \<open>
  What \<open>shutil.rmtree\<close> meets under the workspace directory: the entries in the order in
  which it removes them (the contents of a directory before the directory), each with the
  function that removes it (\<open>os.unlink\<close> for a file, \<open>os.rmdir\<close> for a directory). An
  entry that is \<open>read_only\<close> cannot be removed until its mode is changed; an entry that is
  \<open>busy\<close> cannot be removed whatever its mode (it is open in another process, or its
  parent directory refuses the change); on an entry that is \<open>chmod_denied\<close> the call of
  \<open>os.chmod\<close> raises (the process may not change its mode).
\<close>

datatype func = Unlink | Rmdir

record entry =
  e_path :: path
  e_func :: func
  read_only :: bool
  busy :: bool
  chmod_denied :: bool

datatype event =
    Mkdtemp path
  | Run "str list" "path option"
  | Call func path
  | Chmod path nat

record tree =
  files :: "entry list"
  trace :: "event list"

definition S_IWRITE :: nat where
  "S_IWRITE = 128"

fun chmod_first :: "path \<Rightarrow> bool \<Rightarrow> entry list \<Rightarrow> entry list" where
  "chmod_first p ro [] = []"
| "chmod_first p ro (e # es) =
     (if e_path e = p then e\<lparr>read_only := ro\<rparr> # es else e # chmod_first p ro es)"

fun remove_first :: "path \<Rightarrow> entry list \<Rightarrow> entry list" where
  "remove_first p [] = []"
| "remove_first p (e # es) = (if e_path e = p then es else e # remove_first p es)"

text \<open>
  \<open>os.chmod(path, mode)\<close>: it raises when the path does not exist or the change is denied;
  otherwise the entry is read-only unless the mode has the owner's write bit.
\<close>

definition os_chmod :: "path \<Rightarrow> nat \<Rightarrow> tree \<Rightarrow> (exn + unit) \<times> tree" where
  "os_chmod p mode t =
     (let t' = t\<lparr>trace := trace t @ [Chmod p mode]\<rparr>
      in case find (\<lambda>e. e_path e = p) (files t) of
           None \<Rightarrow> (Inl (FileNotFoundError p), t')
         | Some e \<Rightarrow>
             if chmod_denied e then (Inl (PermissionError p), t')
             else (Inr (), t'\<lparr>files := chmod_first p ((mode div 128) mod 2 = 0) (files t)\<rparr>))"

text \<open>\<open>os.unlink(path)\<close> and \<open>os.rmdir(path)\<close>.\<close>

definition os_remove :: "func \<Rightarrow> path \<Rightarrow> tree \<Rightarrow> (exn + unit) \<times> tree" where
  "os_remove f p t =
     (let t' = t\<lparr>trace := trace t @ [Call f p]\<rparr>
      in case find (\<lambda>e. e_path e = p) (files t) of
           None \<Rightarrow> (Inl (FileNotFoundError p), t')
         | Some e \<Rightarrow>
             if read_only e \<or> busy e then (Inl (PermissionError p), t')
             else (Inr (), t'\<lparr>files := remove_first p (files t)\<rparr>))"

text \<open>
  The handler of lines 73 to 75 (its third argument, the exception information, is not
  used): \<open>os.chmod(path, stat.S_IWRITE)\<close>, then \<open>func(path)\<close>. What either call raises
  leaves the handler.
\<close>

definition on_rm_error :: "func \<Rightarrow> path \<Rightarrow> tree \<Rightarrow> (exn + unit) \<times> tree" where
  "on_rm_error f p t =
     (case os_chmod p S_IWRITE t of
        (Inl e, t1) \<Rightarrow> (Inl e, t1)
      | (Inr _, t1) \<Rightarrow> os_remove f p t1)"

text \<open>
  \<open>shutil.rmtree(tmp_dir, onerror=on_rm_error)\<close>: each entry is removed with its function;
  when that raises \<open>OSError\<close> the handler is called, and the walk goes on when the handler
  returns.
\<close>

fun rmtree_entries :: "(func \<times> path) list \<Rightarrow> tree \<Rightarrow> (exn + unit) \<times> tree" where
  "rmtree_entries [] t = (Inr (), t)"
| "rmtree_entries ((f, p) # rest) t =
     (case os_remove f p t of
        (Inr _, t1) \<Rightarrow> rmtree_entries rest t1
      | (Inl _, t1) \<Rightarrow>
          (case on_rm_error f p t1 of
             (Inl e, t2) \<Rightarrow> (Inl e, t2)
           | (Inr _, t2) \<Rightarrow> rmtree_entries rest t2))"

text \<open>
  The disk holds, for every workspace directory that exists, its entries; the log records
  the calls made to the operating system. \<open>rmtree\<close> walks the entries and then removes
  the directory itself, which \<open>mkdtemp\<close> created for this process alone: that last
  \<open>os.rmdir\<close> succeeds when the directory is empty. On a path that does not exist
  \<open>rmtree\<close> calls the handler, whose \<open>os.chmod\<close> raises.
\<close>

record state =
  disk :: "path \<rightharpoonup> entry list"
  log :: "event list"

definition rmtree :: "path \<Rightarrow> state \<Rightarrow> (exn + unit) \<times> state" where
  "rmtree p s =
     (case disk s p of
        None \<Rightarrow> (Inl (FileNotFoundError p), s)
      | Some es \<Rightarrow>
          (case rmtree_entries (map (\<lambda>e. (e_func e, e_path e)) es) \<lparr>files = es, trace = log s\<rparr> of
             (Inl e, t) \<Rightarrow> (Inl e, \<lparr>disk = (disk s)(p \<mapsto> files t), log = trace t\<rparr>)
           | (Inr _, t) \<Rightarrow>
               if files t = []
               then (Inr (), \<lparr>disk = (disk s)(p := None), log = trace t @ [Call Rmdir p]\<rparr>)
               else (Inl (OSError (py ''Directory not empty'')),
                     \<lparr>disk = (disk s)(p \<mapsto> files t), log = trace t @ [Call Rmdir p]\<rparr>)))"

section \<open>The review endpoint\<close>

record ReviewRequest =
  diff :: "str option"
  repo_url :: "str option"
  pr_number :: "int option"
  base :: str

record ReviewResponse =
  naming_convention :: "str list"
  complexity :: "str list"
  security :: "str list"
  ai_comments :: "str list"
  ai_score :: real

record CompletedProcess =
  returncode :: int
  stdout :: bytes

text \<open>
  What the endpoint calls and does not define: \<open>tempfile.mkdtemp\<close> (given the prefix, it
  raises or returns the new directory), the git process (given the command and the working
  directory, it fails to start or exits with a status and an output, and leaves the
  workspace with some entries), the two backends of
  \<open>reviewer.reviewer\<close>, and the texts the standard library gives its exceptions.
\<close>

record world =
  mkdtemp :: "str \<Rightarrow> exn + path"
  subprocess :: "str list \<Rightarrow> path option \<Rightarrow> (exn + CompletedProcess) \<times> entry list"
  run_rule_checks :: "str \<Rightarrow> pyval \<Rightarrow> str option \<Rightarrow> int option \<Rightarrow> str \<Rightarrow> exn + (str \<rightharpoonup> str list)"
  run_ai_review :: "str \<Rightarrow> pyval \<Rightarrow> exn + (str list \<times> real)"
  fmt :: "exn \<Rightarrow> str"

text \<open>
  \<open>subprocess.run(cmd, cwd=cwd, check=True)\<close> and \<open>subprocess.check_output(cmd, cwd=cwd)\<close>:
  a non-zero exit status raises \<open>CalledProcessError\<close>. The process works in the workspace
  \<open>ws\<close>.
\<close>

definition check_run ::
  "world \<Rightarrow> path \<Rightarrow> str list \<Rightarrow> path option \<Rightarrow> state \<Rightarrow> (exn + CompletedProcess) \<times> state" where
  "check_run w ws cmd cwd s =
     (case subprocess w cmd cwd of
        (r, es') \<Rightarrow>
          (let s' = \<lparr>disk = (disk s)(ws \<mapsto> es'), log = log s @ [Run cmd cwd]\<rparr>
           in case r of
                Inl e \<Rightarrow> (Inl e, s')
              | Inr p \<Rightarrow>
                  if returncode p \<noteq> 0 then (Inl (CalledProcessError (returncode p) cmd), s')
                  else (Inr p, s')))"

definition clone_cmd :: "str \<Rightarrow> path \<Rightarrow> str list" where
  "clone_cmd url tmp_dir = [py ''git'', py ''clone'', py ''--depth'', py ''1'', url, tmp_dir]"

definition fetch_cmd :: "int \<Rightarrow> str list" where
  "fetch_cmd n =
     [py ''git'', py ''fetch'', py ''origin'', py ''pull/'' @ str_int n @ py ''/head:pr_branch'']"

definition checkout_cmd :: "str list" where
  "checkout_cmd = [py ''git'', py ''checkout'', py ''pr_branch'']"

definition diff_cmd :: "str \<Rightarrow> str list" where
  "diff_cmd b = [py ''git'', py ''diff'', py ''origin/'' @ b @ py ''...HEAD'']"

text \<open>The body of the inner \<open>try\<close> (lines 52 to 71).\<close>

definition remote_diff ::
  "world \<Rightarrow> str \<Rightarrow> int \<Rightarrow> str \<Rightarrow> path \<Rightarrow> state \<Rightarrow> (exn + str) \<times> state" where
  "remote_diff w url n b tmp_dir s =
     (case check_run w tmp_dir (clone_cmd url tmp_dir) None s of
        (Inl e, s1) \<Rightarrow> (Inl e, s1)
      | (Inr _, s1) \<Rightarrow>
     (case check_run w tmp_dir (fetch_cmd n) (Some tmp_dir) s1 of
        (Inl e, s2) \<Rightarrow> (Inl e, s2)
      | (Inr _, s2) \<Rightarrow>
     (case check_run w tmp_dir checkout_cmd (Some tmp_dir) s2 of
        (Inl e, s3) \<Rightarrow> (Inl e, s3)
      | (Inr _, s3) \<Rightarrow>
     (case check_run w tmp_dir (diff_cmd b) (Some tmp_dir) s3 of
        (Inl e, s4) \<Rightarrow> (Inl e, s4)
      | (Inr p, s4) \<Rightarrow> (decode Ignore (stdout p), s4)))))"

text \<open>
  Step 1 (lines 49 to 78). The \<open>finally\<close> clause runs whatever the body did; an exception
  it raises replaces the outcome of the body. \<open>x and y\<close> holds when \<open>x\<close> is a non-empty
  string and \<open>y\<close> a non-zero integer; \<open>req.diff or ""\<close> is \<open>req.diff\<close> when that is a
  non-empty string.
\<close>

definition truthy_str :: "str option \<Rightarrow> bool" where
  "truthy_str x = (case x of None \<Rightarrow> False | Some v \<Rightarrow> v \<noteq> [])"

definition truthy_int :: "int option \<Rightarrow> bool" where
  "truthy_int x = (case x of None \<Rightarrow> False | Some v \<Rightarrow> v \<noteq> 0)"

definition compute_diff :: "world \<Rightarrow> ReviewRequest \<Rightarrow> state \<Rightarrow> (exn + str) \<times> state" where
  "compute_diff w req s =
     (if truthy_str (repo_url req) \<and> truthy_int (pr_number req) then
        (case mkdtemp w (py ''ai-review-'') of
           Inl e \<Rightarrow> (Inl e, s)
         | Inr tmp_dir \<Rightarrow>
             (case remote_diff w (the (repo_url req)) (the (pr_number req)) (base req) tmp_dir
                     \<lparr>disk = (disk s)(tmp_dir \<mapsto> []), log = log s @ [Mkdtemp tmp_dir]\<rparr> of
                (r, s1) \<Rightarrow>
                  (case rmtree tmp_dir s1 of
                     (Inl e, s2) \<Rightarrow> (Inl e, s2)
                   | (Inr _, s2) \<Rightarrow> (r, s2))))
      else (Inr (if truthy_str (diff req) then the (diff req) else []), s))"

text \<open>Step 4 (lines 93 to 99); \<open>rules.get(k, [])\<close> is the value at \<open>k\<close>, or the empty list.\<close>

definition get_list :: "(str \<rightharpoonup> str list) \<Rightarrow> str \<Rightarrow> str list" where
  "get_list rules k = (case rules k of None \<Rightarrow> [] | Some v \<Rightarrow> v)"

definition make_response :: "(str \<rightharpoonup> str list) \<Rightarrow> str list \<Rightarrow> real \<Rightarrow> ReviewResponse" where
  "make_response rules comments score =
     \<lparr>naming_convention = get_list rules (py ''naming_convention''),
      complexity = get_list rules (py ''complexity''),
      security = get_list rules (py ''security''),
      ai_comments = comments,
      ai_score = score\<rparr>"

text \<open>The body of the outer \<open>try\<close> (lines 48 to 99).\<close>

definition review_body ::
  "world \<Rightarrow> pyval \<Rightarrow> ReviewRequest \<Rightarrow> state \<Rightarrow> (exn + ReviewResponse) \<times> state" where
  "review_body w cfg req s =
     (case compute_diff w req s of
        (Inl e, s1) \<Rightarrow> (Inl e, s1)
      | (Inr diff_text, s1) \<Rightarrow>
     (case subscript cfg (py ''rules'') of
        Inl e \<Rightarrow> (Inl e, s1)
      | Inr rules_cfg \<Rightarrow>
     (case run_rule_checks w diff_text rules_cfg (repo_url req) (pr_number req) (base req) of
        Inl e \<Rightarrow> (Inl e, s1)
      | Inr rules \<Rightarrow>
     (case subscript cfg (py ''ai_review'') of
        Inl e \<Rightarrow> (Inl e, s1)
      | Inr ai_cfg \<Rightarrow>
     (case run_ai_review w diff_text ai_cfg of
        Inl e \<Rightarrow> (Inl e, s1)
      | Inr (comments, score) \<Rightarrow> (Inr (make_response rules comments score), s1))))))"

text \<open>
  The endpoint: a \<open>CalledProcessError\<close> becomes a 500 whose detail is \<open>Git error: \<close>
  followed by its text, any other exception a 500 whose detail is its text.
\<close>

definition review ::
  "world \<Rightarrow> pyval \<Rightarrow> ReviewRequest \<Rightarrow> state \<Rightarrow> (exn + ReviewResponse) \<times> state" where
  "review w cfg req s =
     (case review_body w cfg req s of
        (Inr resp, s') \<Rightarrow> (Inr resp, s')
      | (Inl (CalledProcessError rc cmd), s') \<Rightarrow>
          (Inl (HTTPException 500
                  (py ''Git error: '' @ str_exn (fmt w) (CalledProcessError rc cmd))), s')
      | (Inl e, s') \<Rightarrow> (Inl (HTTPException 500 (str_exn (fmt w) e)), s'))"

section \<open>Vocabulary of the properties\<close>

text \<open>
  The calls that removing one entry makes when the walk reaches it: one call of its
  function when that succeeds; otherwise that call and the change of mode, and one more
  call when the change of mode returns.
\<close>

definition removal_calls :: "entry \<Rightarrow> event list" where
  "removal_calls e =
     (if read_only e \<or> busy e
      then (if chmod_denied e
            then [Call (e_func e) (e_path e), Chmod (e_path e) S_IWRITE]
            else [Call (e_func e) (e_path e), Chmod (e_path e) S_IWRITE,
                  Call (e_func e) (e_path e)])
      else [Call (e_func e) (e_path e)])"

text \<open>
  An entry resists the handler when its removal fails and the handler raises: the change
  of mode is denied, or the second removal fails. The handler leaves such an entry in the
  workspace, writable when the change of mode went through.
\<close>

definition resists :: "entry \<Rightarrow> bool" where
  "resists e \<longleftrightarrow> (read_only e \<or> busy e) \<and> (chmod_denied e \<or> busy e)"

definition after_handler :: "entry \<Rightarrow> entry" where
  "after_handler e = (if chmod_denied e then e else e\<lparr>read_only := False\<rparr>)"

text \<open>The events of the log that concern a path, and those that start a process.\<close>

definition about :: "path \<Rightarrow> event \<Rightarrow> bool" where
  "about p ev = (case ev of Call f q \<Rightarrow> q = p | Chmod q m \<Rightarrow> q = p | _ \<Rightarrow> False)"


text \<open>The four git steps in the order of the source, and the exit status of a step.\<close>

definition git_steps :: "str \<Rightarrow> int \<Rightarrow> str \<Rightarrow> path \<Rightarrow> (str list \<times> path option) list" where
  "git_steps url n b tmp_dir =
     [(clone_cmd url tmp_dir, None), (fetch_cmd n, Some tmp_dir),
      (checkout_cmd, Some tmp_dir), (diff_cmd b, Some tmp_dir)]"

definition exit_status :: "world \<Rightarrow> str list \<times> path option \<Rightarrow> int option" where
  "exit_status w step =
     (case fst (subprocess w (fst step) (snd step)) of
        Inl e \<Rightarrow> None
      | Inr p \<Rightarrow> Some (returncode p))"

text \<open>
  A sample run: a request for pull request 7, a workspace in which git leaves one
  read-only pack file (busy or not), a fetch that exits with a given status, and backends
  that echo the diff they are given (the rule backend twice, under \<open>security\<close>).
\<close>

definition sample_dir :: path where
  "sample_dir = py ''/tmp/ai-review-k3''"

definition pack_file :: "bool \<Rightarrow> entry" where
  "pack_file b = \<lparr>e_path = py ''/tmp/ai-review-k3/pack'', e_func = Unlink,
                  read_only = True, busy = b, chmod_denied = False\<rparr>"

definition sample_world :: "bool \<Rightarrow> int \<Rightarrow> world" where
  "sample_world b rc =
     \<lparr>mkdtemp = (\<lambda>pfx. Inr sample_dir),
      subprocess = (\<lambda>cmd cwd.
         (Inr \<lparr>returncode = (if cmd ! 1 = py ''fetch'' then rc else 0),
               stdout = [0x61, 0xFF, 0x62]\<rparr>, [pack_file b])),
      run_rule_checks = (\<lambda>d c u n b. Inr [py ''security'' \<mapsto> [d, d]]),
      run_ai_review = (\<lambda>d c. Inr ([d], 1 / 2)),
      fmt = (\<lambda>e. case e of
                   CalledProcessError rc cmd \<Rightarrow> py ''Command returned non-zero exit status''
                 | _ \<Rightarrow> py ''[Errno 13] Permission denied'')\<rparr>"


definition sample_cfg :: pyval where
  "sample_cfg = PyDict [(PyStr (py ''rules''), PyDict []), (PyStr (py ''ai_review''), PyDict [])]"

definition start :: state where
  "start = \<lparr>disk = Map.empty, log = []\<rparr>"

definition sample_line :: InlineSuggestionRequest where
  "sample_line = \<lparr>fileName = py ''a.py'', line = py ''x=1'', lineNumber = 1,
                   fullFile = [py ''x=1'']\<rparr>"

text \<open>A client whose first choice carries the given content.\<close>

definition answering :: "str option \<Rightarrow> openai" where
  "answering c = Inr (\<lambda>k. Inr \<lparr>choices = [\<lparr>message = Some \<lparr>content = c\<rparr>\<rparr>]\<rparr>)"

text \<open>Requests without a usable remote pair, and a workspace with a plain file in it.\<close>

definition bare_request :: ReviewRequest where
  "bare_request = \<lparr>diff = None, repo_url = None, pr_number = None, base = py ''main''\<rparr>"

definition blank_url_request :: ReviewRequest where
  "blank_url_request = \<lparr>diff = Some (py ''+x''), repo_url = Some [], pr_number = Some 7,
                         base = py ''main''\<rparr>"

definition zero_pr_request :: ReviewRequest where
  "zero_pr_request = \<lparr>diff = None, repo_url = Some (py ''https://example.org/r.git''),
                       pr_number = Some 0, base = py ''main''\<rparr>"

definition rules_only_cfg :: pyval where
  "rules_only_cfg = PyDict [(PyStr (py ''rules''), PyDict [])]"

definition plain_file :: entry where
  "plain_file = \<lparr>e_path = py ''/tmp/ai-review-k3/README'', e_func = Unlink,
                  read_only = False, busy = False, chmod_denied = False\<rparr>"

definition sample_disk :: "bool \<Rightarrow> state" where
  "sample_disk b = \<lparr>disk = [sample_dir \<mapsto> [plain_file, pack_file b]], log = []\<rparr>"

text \<open>A read-only file whose mode the process may not change, and a workspace that holds it.\<close>

definition foreign_file :: entry where
  "foreign_file = \<lparr>e_path = py ''/tmp/ai-review-k3/HEAD'', e_func = Unlink,
                    read_only = True, busy = False, chmod_denied = True\<rparr>"

definition foreign_disk :: state where
  "foreign_disk = \<lparr>disk = [sample_dir \<mapsto> [plain_file, foreign_file]], log = []\<rparr>"



section \<open>Properties of the inline-suggestion endpoint\<close>

lemma str_nat_500: "str_nat 500 = py ''500''"
  by (simp add: str_nat.simps py_def)

lemma get_missing: "map_of kvs (PyStr k) = None \<Longrightarrow> get (PyDict kvs) k d = Inr d"
  by (simp add: get_def)

lemma get_empty: "get (PyDict []) k d = Inr d"
  by (simp add: get_def)

text \<open>
  Whatever the client answers, a first choice with non-empty content gives a response whose
  \<open>suggestedText\<close> is that content stripped; the content of the specification's example
  comes back unchanged.
\<close>

lemma inline_suggestion_trims:
  assumes "get cfg (py ''ai_review'') (PyDict []) = Inr sec"
    and "get sec (py ''model'') (PyStr (py ''gpt-4o-mini'')) = Inr m"
    and "get sec (py ''temperature'') (PyFloat 0.2) = Inr t"
    and "create \<lparr>model = m, messages = [(py ''user'', prompt req)],
                  temperature = t, max_tokens = 100\<rparr> = Inr response"
    and "choices response = c # cs"
    and "message c = Some msg" and "content msg = Some txt" and "txt \<noteq> []"
  shows "inline_suggestion f (Inr create) cfg req = Inr \<lparr>suggestedText = strip txt\<rparr>"
  using assms by (simp add: inline_suggestion_def inline_suggestion_body_def)

lemma inline_suggestion_example:
  "inline_suggestion (\<lambda>e. []) (answering (Some (py ''x = 1  # fixed spacing''))) (PyDict []) sample_line
     = Inr \<lparr>suggestedText = py ''x = 1  # fixed spacing''\<rparr>"
  by (simp add: inline_suggestion_def inline_suggestion_body_def answering_def get_empty
        strip_def lstrip_def rstrip_def isspace_def py_def)

text \<open>
  Claim C5. When the first choice has no message, no content or empty content, line 134
  raises \<open>HTTPException(500, "No suggestion returned from AI model.")\<close> inside the
  \<open>try\<close>; the handler of line 137 catches it and raises a new one whose detail is
  \<open>str\<close> of the first. The endpoint fails with status 500, and the detail is
  \<open>500: No suggestion returned from AI model.\<close>, not the message of line 134.
\<close>

theorem inline_suggestion_empty_content:
  assumes "get cfg (py ''ai_review'') (PyDict []) = Inr sec"
    and "get sec (py ''model'') (PyStr (py ''gpt-4o-mini'')) = Inr m"
    and "get sec (py ''temperature'') (PyFloat 0.2) = Inr t"
    and "create \<lparr>model = m, messages = [(py ''user'', prompt req)],
                  temperature = t, max_tokens = 100\<rparr> = Inr response"
    and "choices response = c # cs"
    and "message c = None \<or> (\<exists>msg. message c = Some msg \<and> (content msg = None \<or> content msg = Some []))"
  shows "inline_suggestion f (Inr create) cfg req
         = Inl (HTTPException 500 (py ''500: No suggestion returned from AI model.''))"
proof -
  have b: "inline_suggestion_body (Inr create) cfg req
           = Inl (HTTPException 500 (py ''No suggestion returned from AI model.''))"
    using assms by (auto simp add: inline_suggestion_body_def Let_def)
  show ?thesis
    by (simp add: inline_suggestion_def b str_exn_def str_nat_500) (simp add: py_def)
qed

theorem inline_suggestion_empty_content_witness:
  "inline_suggestion (\<lambda>e. []) (answering None) (PyDict []) sample_line
     = Inl (HTTPException 500 (py ''500: No suggestion returned from AI model.''))
   \<and> inline_suggestion (\<lambda>e. []) (answering (Some [])) (PyDict []) sample_line
     = Inl (HTTPException 500 (py ''500: No suggestion returned from AI model.''))
   \<and> py ''500: No suggestion returned from AI model.'' \<noteq> py ''No suggestion returned from AI model.''"
proof -
  have 1: "inline_suggestion (\<lambda>e. []) (answering None) (PyDict []) sample_line
           = Inl (HTTPException 500 (py ''500: No suggestion returned from AI model.''))"
    using inline_suggestion_empty_content
      [where f = "\<lambda>e. []" and cfg = "PyDict []" and req = sample_line and sec = "PyDict []"
         and m = "PyStr (py ''gpt-4o-mini'')" and t = "PyFloat 0.2"
         and create = "\<lambda>k. Inr \<lparr>choices = [\<lparr>message = Some \<lparr>content = None\<rparr>\<rparr>]\<rparr>"
         and response = "\<lparr>choices = [\<lparr>message = Some \<lparr>content = None\<rparr>\<rparr>]\<rparr>"
         and c = "\<lparr>message = Some \<lparr>content = None\<rparr>\<rparr>" and cs = "[]"]
    by (simp add: get_empty answering_def)
  have 2: "inline_suggestion (\<lambda>e. []) (answering (Some [])) (PyDict []) sample_line
           = Inl (HTTPException 500 (py ''500: No suggestion returned from AI model.''))"
    using inline_suggestion_empty_content
      [where f = "\<lambda>e. []" and cfg = "PyDict []" and req = sample_line and sec = "PyDict []"
         and m = "PyStr (py ''gpt-4o-mini'')" and t = "PyFloat 0.2"
         and create = "\<lambda>k. Inr \<lparr>choices = [\<lparr>message = Some \<lparr>content = Some []\<rparr>\<rparr>]\<rparr>"
         and response = "\<lparr>choices = [\<lparr>message = Some \<lparr>content = Some []\<rparr>\<rparr>]\<rparr>"
         and c = "\<lparr>message = Some \<lparr>content = Some []\<rparr>\<rparr>" and cs = "[]"]
    by (simp add: get_empty answering_def)
  have 3: "py ''500: No suggestion returned from AI model.'' \<noteq> py ''No suggestion returned from AI model.''"
    by (simp add: py_def)
  show ?thesis using 1 2 3 by simp
qed

text \<open>
  Claim C6. The emptiness test of line 133 is made before \<open>strip\<close>: content that consists
  of white space is not empty, passes the test, and is stripped to the empty string. The
  endpoint answers 200 with an empty \<open>suggestedText\<close>.
\<close>

theorem inline_suggestion_blank_content:
  "inline_suggestion (\<lambda>e. []) (answering (Some (py ''   ''))) (PyDict []) sample_line
     = Inr \<lparr>suggestedText = []\<rparr>"
  by (simp add: inline_suggestion_def inline_suggestion_body_def answering_def get_empty
        strip_def lstrip_def rstrip_def isspace_def py_def)

section \<open>Properties of the deletion of the workspace\<close>

text \<open>
  The walk over a workspace whose entries are listed in \<open>files\<close>: an entry that does not
  resist is removed (at once, or after the handler has made it writable) and the walk goes
  on; an entry that resists stops the walk with the error of the handler. So \<open>rmtree\<close>
  either removes everything and the directory, or raises at the first entry that resists
  and leaves it and what follows it in the directory.
\<close>

lemma rmtree_entries_head:
  "rmtree_entries ((e_func e, e_path e) # rest) \<lparr>files = e # es, trace = tr\<rparr> =
     (if resists e
      then (Inl (PermissionError (e_path e)),
            \<lparr>files = after_handler e # es, trace = tr @ removal_calls e\<rparr>)
      else rmtree_entries rest \<lparr>files = es, trace = tr @ removal_calls e\<rparr>)"
  by (simp add: os_remove_def on_rm_error_def os_chmod_def removal_calls_def S_IWRITE_def
        resists_def after_handler_def)

lemma rmtree_entries_prefix:
  "\<forall>e \<in> set pre. \<not> resists e \<Longrightarrow>
   rmtree_entries (map (\<lambda>e. (e_func e, e_path e)) pre @ todo) \<lparr>files = pre @ rest, trace = tr\<rparr>
   = rmtree_entries todo \<lparr>files = rest, trace = tr @ concat (map removal_calls pre)\<rparr>"
proof (induction pre arbitrary: tr)
  case Nil
  then show ?case by simp
next
  case (Cons e pre)
  then show ?case by (simp add: rmtree_entries_head del: rmtree_entries.simps)
qed

lemma rmtree_entries_all:
  "\<forall>e \<in> set es. \<not> resists e \<Longrightarrow>
   rmtree_entries (map (\<lambda>e. (e_func e, e_path e)) es) \<lparr>files = es, trace = tr\<rparr>
   = (Inr (), \<lparr>files = [], trace = tr @ concat (map removal_calls es)\<rparr>)"
  using rmtree_entries_prefix [of es "[]" "[]" tr] by simp

lemma rmtree_clean:
  assumes "disk s p = Some es" and "\<forall>e \<in> set es. \<not> resists e"
  shows "rmtree p s = (Inr (), \<lparr>disk = (disk s)(p := None),
                                log = log s @ concat (map removal_calls es) @ [Call Rmdir p]\<rparr>)"
  using assms by (simp add: rmtree_def rmtree_entries_all)

lemma rmtree_stuck:
  assumes "disk s p = Some (pre @ e # post)" and "\<forall>x \<in> set pre. \<not> resists x" and "resists e"
  shows "rmtree p s = (Inl (PermissionError (e_path e)),
           \<lparr>disk = (disk s)(p \<mapsto> after_handler e # post),
            log = log s @ concat (map removal_calls pre) @ removal_calls e\<rparr>)"
  using assms
  by (simp add: rmtree_def rmtree_entries_prefix rmtree_entries_head del: rmtree_entries.simps)






text \<open>The calls recorded for one path come from the entry at that path only.\<close>

lemma os_remove_trace: "trace (snd (os_remove f q t)) = trace t @ [Call f q]"
  by (simp add: os_remove_def Let_def split: option.splits)

lemma os_chmod_trace: "trace (snd (os_chmod q m t)) = trace t @ [Chmod q m]"
  by (simp add: os_chmod_def Let_def split: option.splits)

lemma on_rm_error_trace:
  "q \<noteq> p \<Longrightarrow> filter (about p) (trace (snd (on_rm_error f q t))) = filter (about p) (trace t)"
proof -
  assume qp: "q \<noteq> p"
  obtain r1 t1 where c: "os_chmod q S_IWRITE t = (r1, t1)" by force
  have t1: "trace t1 = trace t @ [Chmod q S_IWRITE]"
    using os_chmod_trace [of q S_IWRITE t] c by simp
  show ?thesis
  proof (cases r1)
    case (Inl e)
    then show ?thesis using c t1 qp by (simp add: on_rm_error_def about_def)
  next
    case (Inr u)
    then show ?thesis
      using c t1 qp os_remove_trace [of f q t1] by (simp add: on_rm_error_def about_def)
  qed
qed

lemma rmtree_entries_other_paths:
  "p \<notin> snd ` set todo \<Longrightarrow>
   filter (about p) (trace (snd (rmtree_entries todo t))) = filter (about p) (trace t)"
proof (induction todo arbitrary: t)
  case Nil
  then show ?case by simp
next
  case (Cons a todo)
  obtain f q where a: "a = (f, q)" by (cases a)
  have qp: "q \<noteq> p" and rest: "p \<notin> snd ` set todo" using Cons.prems a by auto
  obtain r1 t1 where c1: "os_remove f q t = (r1, t1)" by force
  have t1: "filter (about p) (trace t1) = filter (about p) (trace t)"
    using os_remove_trace [of f q t] c1 qp by (simp add: about_def)
  show ?case
  proof (cases r1)
    case (Inr u)
    then show ?thesis using a c1 t1 Cons.IH [OF rest, of t1] by simp
  next
    case (Inl x)
    obtain r2 t2 where c2: "on_rm_error f q t1 = (r2, t2)" by force
    have t2: "filter (about p) (trace t2) = filter (about p) (trace t)"
      using on_rm_error_trace [OF qp, of f t1] c2 t1 by simp
    show ?thesis
      using Inl a c1 c2 t2 Cons.IH [OF rest, of t2] by (cases r2) simp_all
  qed
qed

lemma about_removal_calls_other:
  "\<forall>x \<in> set es. e_path x \<noteq> p \<Longrightarrow> filter (about p) (concat (map removal_calls es)) = []"
  by (induction es) (simp_all add: removal_calls_def about_def)

lemma about_removal_calls_retry:
  "read_only e \<or> busy e \<Longrightarrow> \<not> chmod_denied e \<Longrightarrow>
   filter (about (e_path e)) (removal_calls e)
   = [Call (e_func e) (e_path e), Chmod (e_path e) S_IWRITE, Call (e_func e) (e_path e)]"
  by (simp add: removal_calls_def about_def)

lemma about_removal_calls_denied:
  "read_only e \<or> busy e \<Longrightarrow> chmod_denied e \<Longrightarrow>
   filter (about (e_path e)) (removal_calls e)
   = [Call (e_func e) (e_path e), Chmod (e_path e) S_IWRITE]"
  by (simp add: removal_calls_def about_def)

lemma rmtree_log:
  assumes "disk s ws = Some es"
  shows "log (snd (rmtree ws s))
           = trace (snd (rmtree_entries (map (\<lambda>e. (e_func e, e_path e)) es)
                          \<lparr>files = es, trace = log s\<rparr>))
         \<or> log (snd (rmtree ws s))
           = trace (snd (rmtree_entries (map (\<lambda>e. (e_func e, e_path e)) es)
                          \<lparr>files = es, trace = log s\<rparr>)) @ [Call Rmdir ws]"
  using assms by (simp add: rmtree_def split: prod.splits sum.splits)

text \<open>
  Claim C8, as amended. Let the walk reach an entry (no entry before it resists) whose
  removal fails, in a workspace whose paths are distinct. The handler calls
  \<open>os.chmod(path, stat.S_IWRITE)\<close> once. When that call returns, the removal is retried
  exactly once (the calls recorded for the path are the failed removal, the change of mode
  and one more removal, nothing else), and when the retry fails too its error leaves
  \<open>rmtree\<close>. When \<open>os.chmod\<close> itself raises, the removal is not retried (the calls
  recorded are the failed removal and the change of mode), and it is the error of
  \<open>os.chmod\<close> that leaves \<open>rmtree\<close>.
\<close>

theorem handler_retries_when_chmod_returns:
  assumes "disk s ws = Some (pre @ e # post)"
    and "\<forall>x \<in> set pre. \<not> resists x"
    and "read_only e \<or> busy e"
    and "distinct (map e_path (pre @ e # post))"
    and "e_path e \<noteq> ws"
  shows "(\<not> chmod_denied e \<longrightarrow>
            filter (about (e_path e)) (log (snd (rmtree ws s)))
              = filter (about (e_path e)) (log s)
                @ [Call (e_func e) (e_path e), Chmod (e_path e) S_IWRITE,
                   Call (e_func e) (e_path e)]
            \<and> (busy e \<longrightarrow> fst (rmtree ws s) = Inl (PermissionError (e_path e))))
         \<and> (chmod_denied e \<longrightarrow>
            filter (about (e_path e)) (log (snd (rmtree ws s)))
              = filter (about (e_path e)) (log s)
                @ [Call (e_func e) (e_path e), Chmod (e_path e) S_IWRITE]
            \<and> fst (rmtree ws s) = Inl (PermissionError (e_path e)))"
proof -
  let ?p = "e_path e"
  have dp: "?p \<notin> e_path ` set pre" using assms(4) by simp
  have pre: "\<forall>x \<in> set pre. e_path x \<noteq> ?p"
  proof (intro ballI notI)
    fix x assume "x \<in> set pre" and "e_path x = ?p"
    then have "?p \<in> e_path ` set pre" by (metis imageI)
    with dp show False by simp
  qed
  have post: "?p \<notin> snd ` set (map (\<lambda>e. (e_func e, e_path e)) post)"
    using assms(4) by (auto simp add: image_iff)
  show ?thesis
  proof (cases "resists e")
    case True
    note st = rmtree_stuck [OF assms(1,2) True]
    show ?thesis
    proof (cases "chmod_denied e")
      case True
      then show ?thesis
        using st about_removal_calls_other [OF pre] about_removal_calls_denied [OF assms(3) True]
        by simp
    next
      case False
      then show ?thesis
        using st about_removal_calls_other [OF pre] about_removal_calls_retry [OF assms(3) False]
        by simp
    qed
  next
    case False
    then have nd: "\<not> chmod_denied e" and nb: "\<not> busy e"
      using assms(3) by (auto simp add: resists_def)
    let ?t = "\<lparr>files = post, trace = log s @ concat (map removal_calls pre) @ removal_calls e\<rparr>"
    have walk: "rmtree_entries (map (\<lambda>e. (e_func e, e_path e)) (pre @ e # post))
                  \<lparr>files = pre @ e # post, trace = log s\<rparr>
                = rmtree_entries (map (\<lambda>e. (e_func e, e_path e)) post) ?t"
      using assms(2) False
      by (simp add: rmtree_entries_prefix rmtree_entries_head del: rmtree_entries.simps)
    have tr: "filter (about ?p) (trace (snd (rmtree_entries (map (\<lambda>e. (e_func e, e_path e)) post) ?t)))
              = filter (about ?p) (log s)
                @ [Call (e_func e) ?p, Chmod ?p S_IWRITE, Call (e_func e) ?p]"
      using rmtree_entries_other_paths [OF post, of ?t] about_removal_calls_other [OF pre]
        about_removal_calls_retry [OF assms(3) nd]
      by simp
    have root: "\<not> about ?p (Call Rmdir ws)" using assms(5) by (simp add: about_def)
    show ?thesis
      using rmtree_log [OF assms(1)] walk tr root nd nb by auto
  qed
qed

theorem handler_retries_when_chmod_returns_witness:
  "filter (about (e_path (pack_file True))) (log (snd (rmtree sample_dir (sample_disk True))))
     = [Call Unlink (e_path (pack_file True)), Chmod (e_path (pack_file True)) S_IWRITE,
        Call Unlink (e_path (pack_file True))]
   \<and> fst (rmtree sample_dir (sample_disk True)) = Inl (PermissionError (e_path (pack_file True)))
   \<and> filter (about (e_path (pack_file False))) (log (snd (rmtree sample_dir (sample_disk False))))
     = [Call Unlink (e_path (pack_file False)), Chmod (e_path (pack_file False)) S_IWRITE,
        Call Unlink (e_path (pack_file False))]
   \<and> disk (snd (rmtree sample_dir (sample_disk False))) sample_dir = None
   \<and> filter (about (e_path foreign_file)) (log (snd (rmtree sample_dir foreign_disk)))
     = [Call Unlink (e_path foreign_file), Chmod (e_path foreign_file) S_IWRITE]
   \<and> fst (rmtree sample_dir foreign_disk) = Inl (PermissionError (e_path foreign_file))"
proof -
  have d: "\<And>b. disk (sample_disk b) sample_dir = Some ([plain_file] @ pack_file b # [])"
    by (simp add: sample_disk_def)
  have df: "disk foreign_disk sample_dir = Some ([plain_file] @ foreign_file # [])"
    by (simp add: foreign_disk_def)
  have pre: "\<forall>x \<in> set [plain_file]. \<not> resists x" by (simp add: plain_file_def resists_def)
  have ro: "\<And>b. read_only (pack_file b) \<or> busy (pack_file b)" by (simp add: pack_file_def)
  have rf: "read_only foreign_file \<or> busy foreign_file" by (simp add: foreign_file_def)
  have di: "\<And>b. distinct (map e_path ([plain_file] @ pack_file b # []))"
    by (simp add: plain_file_def pack_file_def py_def)
  have dif: "distinct (map e_path ([plain_file] @ foreign_file # []))"
    by (simp add: plain_file_def foreign_file_def py_def)
  have ne: "\<And>b. e_path (pack_file b) \<noteq> sample_dir"
    by (simp add: pack_file_def sample_dir_def py_def)
  have nef: "e_path foreign_file \<noteq> sample_dir"
    by (simp add: foreign_file_def sample_dir_def py_def)
  have 1: "filter (about (e_path (pack_file True))) (log (snd (rmtree sample_dir (sample_disk True))))
     = [Call Unlink (e_path (pack_file True)), Chmod (e_path (pack_file True)) S_IWRITE,
        Call Unlink (e_path (pack_file True))]
     \<and> fst (rmtree sample_dir (sample_disk True)) = Inl (PermissionError (e_path (pack_file True)))"
    using handler_retries_when_chmod_returns [OF d pre ro di ne, of True]
    by (simp add: sample_disk_def pack_file_def)
  have 2: "filter (about (e_path (pack_file False))) (log (snd (rmtree sample_dir (sample_disk False))))
     = [Call Unlink (e_path (pack_file False)), Chmod (e_path (pack_file False)) S_IWRITE,
        Call Unlink (e_path (pack_file False))]"
    using handler_retries_when_chmod_returns [OF d pre ro di ne, of False]
    by (simp add: sample_disk_def pack_file_def)
  have 3: "disk (snd (rmtree sample_dir (sample_disk False))) sample_dir = None"
    using rmtree_clean [of "sample_disk False" sample_dir "[plain_file, pack_file False]"]
    by (simp add: sample_disk_def plain_file_def pack_file_def resists_def)
  have 4: "filter (about (e_path foreign_file)) (log (snd (rmtree sample_dir foreign_disk)))
     = [Call Unlink (e_path foreign_file), Chmod (e_path foreign_file) S_IWRITE]
     \<and> fst (rmtree sample_dir foreign_disk) = Inl (PermissionError (e_path foreign_file))"
    using handler_retries_when_chmod_returns [OF df pre rf dif nef]
    by (simp add: foreign_disk_def foreign_file_def)
  show ?thesis using 1 2 3 4 by simp
qed

text \<open>
  The claim as stated fails: for a read-only file whose mode the process may not change,
  \<open>os.unlink\<close> fails, \<open>os.chmod\<close> raises in line 74, and line 75 is not reached. The
  removal is not retried and the attribute is not cleared; the file stays.
\<close>

theorem chmod_failure_not_retried_counterexample:
  "read_only foreign_file
   \<and> log (snd (rmtree sample_dir foreign_disk))
     = [Call Unlink (e_path plain_file), Call Unlink (e_path foreign_file),
        Chmod (e_path foreign_file) S_IWRITE]
   \<and> fst (rmtree sample_dir foreign_disk) = Inl (PermissionError (e_path foreign_file))
   \<and> disk (snd (rmtree sample_dir foreign_disk)) sample_dir = Some [foreign_file]"
proof -
  have df: "disk foreign_disk sample_dir = Some ([plain_file] @ foreign_file # [])"
    by (simp add: foreign_disk_def)
  have pre: "\<forall>x \<in> set [plain_file]. \<not> resists x" by (simp add: plain_file_def resists_def)
  have r: "resists foreign_file" by (simp add: foreign_file_def resists_def)
  show ?thesis
    using rmtree_stuck [OF df pre r]
    by (simp add: foreign_disk_def after_handler_def removal_calls_def)
       (simp add: foreign_file_def plain_file_def)
qed

section \<open>Properties of the review endpoint\<close>

text \<open>The state in which a request leaves the disk is the one step 1 leaves.\<close>

lemma review_body_state: "snd (review_body w cfg req s) = snd (compute_diff w req s)"
  by (simp add: review_body_def split: prod.splits sum.splits)

lemma review_state: "snd (review w cfg req s) = snd (compute_diff w req s)"
proof -
  have "snd (review w cfg req s) = snd (review_body w cfg req s)"
    by (simp add: review_def split: prod.splits sum.splits exn.splits)
  then show ?thesis by (simp add: review_body_state)
qed

lemma review_is_500: "fst (review w cfg req s) = Inl e \<Longrightarrow> \<exists>d. e = HTTPException 500 d"
  by (auto simp add: review_def split: prod.splits sum.splits exn.splits)

lemma compute_diff_local:
  assumes "\<not> (truthy_str (repo_url req) \<and> truthy_int (pr_number req))"
  shows "compute_diff w req s = (Inr (case diff req of None \<Rightarrow> [] | Some d \<Rightarrow> d), s)"
  using assms by (auto simp add: compute_diff_def truthy_str_def split: option.splits)



lemma check_run_zero:
  assumes "exit_status w (cmd, cwd) = Some 0"
  shows "check_run w ws cmd cwd s
           = (Inr (projr (fst (subprocess w cmd cwd))),
              \<lparr>disk = (disk s)(ws \<mapsto> snd (subprocess w cmd cwd)),
               log = log s @ [Run cmd cwd]\<rparr>)"
  using assms
  by (auto simp add: check_run_def exit_status_def Let_def split: prod.splits sum.splits)


















text \<open>
  Claim C2. For every request with no usable \<open>diff\<close> and no usable remote pair, the diff
  text is the empty string, no workspace is touched, and the endpoint returns the response
  whose three categories are what the rule backend returns for the empty diff under these
  keys (the empty sequence for a key it omits) and whose comments and score are what the AI
  backend returns for the empty diff (the configuration holding both sections, and both
  backends returning).
\<close>

theorem missing_input_reviews_empty_diff:
  assumes "\<not> truthy_str (diff req)"
    and "\<not> (truthy_str (repo_url req) \<and> truthy_int (pr_number req))"
    and "subscript cfg (py ''rules'') = Inr rules_cfg"
    and "run_rule_checks w [] rules_cfg (repo_url req) (pr_number req) (base req) = Inr rules"
    and "subscript cfg (py ''ai_review'') = Inr ai_cfg"
    and "run_ai_review w [] ai_cfg = Inr (comments, score)"
  shows "compute_diff w req s = (Inr [], s)
         \<and> review w cfg req s
           = (Inr \<lparr>naming_convention =
                     (case rules (py ''naming_convention'') of None \<Rightarrow> [] | Some v \<Rightarrow> v),
                   complexity = (case rules (py ''complexity'') of None \<Rightarrow> [] | Some v \<Rightarrow> v),
                   security = (case rules (py ''security'') of None \<Rightarrow> [] | Some v \<Rightarrow> v),
                   ai_comments = comments, ai_score = score\<rparr>, s)"
proof -
  have cd: "compute_diff w req s = (Inr [], s)"
    using assms(1,2) by (auto simp add: compute_diff_def)
  show ?thesis
    using assms(3-6) by (simp add: cd review_def review_body_def make_response_def get_list_def)
qed

theorem missing_input_reviews_empty_diff_witness:
  "compute_diff (sample_world False 0) bare_request start = (Inr [], start)
   \<and> review (sample_world False 0) sample_cfg bare_request start
     = (Inr \<lparr>naming_convention = [], complexity = [], security = [[], []],
             ai_comments = [[]], ai_score = 1 / 2\<rparr>, start)"
proof -
  let ?rules = "[py ''security'' \<mapsto> [[], []]]"
  have "compute_diff (sample_world False 0) bare_request start = (Inr [], start)
         \<and> review (sample_world False 0) sample_cfg bare_request start
           = (Inr \<lparr>naming_convention =
                     (case ?rules (py ''naming_convention'') of None \<Rightarrow> [] | Some v \<Rightarrow> v),
                   complexity = (case ?rules (py ''complexity'') of None \<Rightarrow> [] | Some v \<Rightarrow> v),
                   security = (case ?rules (py ''security'') of None \<Rightarrow> [] | Some v \<Rightarrow> v),
                   ai_comments = [[]], ai_score = 1 / 2\<rparr>, start)"
    by (rule missing_input_reviews_empty_diff
          [where rules_cfg = "PyDict []" and ai_cfg = "PyDict []" and rules = "?rules"])
       (simp_all add: bare_request_def truthy_str_def sample_cfg_def subscript_def sample_world_def
          py_def)
  then show ?thesis
    by (simp add: py_def)
qed

text \<open>
  Claim C9. For every request whose \<open>repo_url\<close> is the empty string or whose
  \<open>pr_number\<close> is 0, the remote branch is not taken: the diff text is the \<open>diff\<close> field,
  or the empty string when that is unset, and the request leaves the disk and the log as
  they were (no directory is created, no process is run).
\<close>

theorem falsy_remote_fields_skip_workspace:
  assumes "repo_url req = Some [] \<or> pr_number req = Some 0"
  shows "compute_diff w req s = (Inr (case diff req of None \<Rightarrow> [] | Some d \<Rightarrow> d), s)
         \<and> snd (review w cfg req s) = s"
proof -
  have "\<not> (truthy_str (repo_url req) \<and> truthy_int (pr_number req))"
    using assms by (auto simp add: truthy_str_def truthy_int_def)
  then have cd: "compute_diff w req s = (Inr (case diff req of None \<Rightarrow> [] | Some d \<Rightarrow> d), s)"
    by (rule compute_diff_local)
  show ?thesis by (simp add: cd review_state)
qed

theorem falsy_remote_fields_skip_workspace_witness:
  "(compute_diff (sample_world True 1) blank_url_request start = (Inr (py ''+x''), start)
    \<and> snd (review (sample_world True 1) sample_cfg blank_url_request start) = start)
   \<and> (compute_diff (sample_world True 1) zero_pr_request start = (Inr [], start)
    \<and> snd (review (sample_world True 1) sample_cfg zero_pr_request start) = start)"
proof -
  have 1: "repo_url blank_url_request = Some [] \<or> pr_number blank_url_request = Some 0"
    by (simp add: blank_url_request_def)
  have 2: "repo_url zero_pr_request = Some [] \<or> pr_number zero_pr_request = Some 0"
    by (simp add: zero_pr_request_def)
  show ?thesis
    using falsy_remote_fields_skip_workspace [OF 1, of "sample_world True 1" start sample_cfg]
      falsy_remote_fields_skip_workspace [OF 2, of "sample_world True 1" start sample_cfg]
    by (simp add: blank_url_request_def zero_pr_request_def)
qed

text \<open>
  Claim C3. Whatever mapping the rule backend returns, the endpoint answers with a response
  (it does not raise), in which each of \<open>naming_convention\<close>, \<open>complexity\<close> and
  \<open>security\<close> is exactly the backend's sequence under that key when the key is present,
  and the empty sequence when it is absent; the comments and the score of the AI backend
  are passed on unchanged.
\<close>

theorem response_passes_categories_through:
  assumes "compute_diff w req s = (Inr d, s1)"
    and "subscript cfg (py ''rules'') = Inr rules_cfg"
    and "run_rule_checks w d rules_cfg (repo_url req) (pr_number req) (base req) = Inr rules"
    and "subscript cfg (py ''ai_review'') = Inr ai_cfg"
    and "run_ai_review w d ai_cfg = Inr (comments, score)"
  shows "\<exists>r. fst (review w cfg req s) = Inr r
         \<and> (\<forall>v. rules (py ''naming_convention'') = Some v \<longrightarrow> naming_convention r = v)
         \<and> (rules (py ''naming_convention'') = None \<longrightarrow> naming_convention r = [])
         \<and> (\<forall>v. rules (py ''complexity'') = Some v \<longrightarrow> complexity r = v)
         \<and> (rules (py ''complexity'') = None \<longrightarrow> complexity r = [])
         \<and> (\<forall>v. rules (py ''security'') = Some v \<longrightarrow> security r = v)
         \<and> (rules (py ''security'') = None \<longrightarrow> security r = [])
         \<and> ai_comments r = comments \<and> ai_score r = score"
  using assms
  by (simp add: review_def review_body_def make_response_def get_list_def)

theorem response_passes_categories_through_witness:
  "fst (review (sample_world False 0) sample_cfg blank_url_request start)
   = Inr \<lparr>naming_convention = [], complexity = [], security = [py ''+x'', py ''+x''],
          ai_comments = [py ''+x''], ai_score = 1 / 2\<rparr>"
proof -
  let ?w = "sample_world False 0"
  let ?rules = "[py ''security'' \<mapsto> [py ''+x'', py ''+x'']]"
  have cd: "compute_diff ?w blank_url_request start = (Inr (py ''+x''), start)"
    by (simp add: compute_diff_def blank_url_request_def truthy_str_def)
  have c1: "subscript sample_cfg (py ''rules'') = Inr (PyDict [])"
    by (simp add: subscript_def sample_cfg_def py_def)
  have c2: "subscript sample_cfg (py ''ai_review'') = Inr (PyDict [])"
    by (simp add: subscript_def sample_cfg_def py_def)
  have r: "run_rule_checks ?w (py ''+x'') (PyDict []) (repo_url blank_url_request)
             (pr_number blank_url_request) (base blank_url_request) = Inr ?rules"
    by (simp add: sample_world_def)
  have a: "run_ai_review ?w (py ''+x'') (PyDict []) = Inr ([py ''+x''], 1 / 2)"
    by (simp add: sample_world_def)
  have k1: "?rules (py ''naming_convention'') = None" by (simp add: py_def)
  have k2: "?rules (py ''complexity'') = None" by (simp add: py_def)
  have k3: "?rules (py ''security'') = Some [py ''+x'', py ''+x'']" by simp
  from response_passes_categories_through [OF cd c1 r c2 a]
  obtain resp where H: "fst (review ?w sample_cfg blank_url_request start) = Inr resp
         \<and> (\<forall>v. ?rules (py ''naming_convention'') = Some v \<longrightarrow> naming_convention resp = v)
         \<and> (?rules (py ''naming_convention'') = None \<longrightarrow> naming_convention resp = [])
         \<and> (\<forall>v. ?rules (py ''complexity'') = Some v \<longrightarrow> complexity resp = v)
         \<and> (?rules (py ''complexity'') = None \<longrightarrow> complexity resp = [])
         \<and> (\<forall>v. ?rules (py ''security'') = Some v \<longrightarrow> security resp = v)
         \<and> (?rules (py ''security'') = None \<longrightarrow> security resp = [])
         \<and> ai_comments resp = [py ''+x''] \<and> ai_score resp = 1 / 2" ..
  have f1: "naming_convention resp = []" using H k1 by (elim conjE) (erule mp)
  have f2: "complexity resp = []" using H k2 by (elim conjE) (erule mp [where P = "?rules (py ''complexity'') = None"])
  have f3: "security resp = [py ''+x'', py ''+x'']" using H k3 by (elim conjE) (erule allE mp)+
  have f4: "ai_comments resp = [py ''+x'']" using H by (elim conjE)
  have f5: "ai_score resp = 1 / 2" using H by (elim conjE)
  have "resp = \<lparr>naming_convention = [], complexity = [],
      security = [py ''+x'', py ''+x''], ai_comments = [py ''+x''], ai_score = 1 / 2\<rparr>"
    using f1 f2 f3 f4 f5 by (cases resp) simp
  moreover have "fst (review ?w sample_cfg blank_url_request start) = Inr resp"
    using H by (elim conjE)
  ultimately show ?thesis by simp
qed

section \<open>Properties of the decoding\<close>

text \<open>
  With the handler \<open>ignore\<close> the decoder returns a text for every input; the text is what
  \<open>strict\<close> returns when that succeeds, and a subsequence of what \<open>replace\<close> returns.
\<close>

lemma decode_modes:
  "\<exists>t r. decode Ignore bs = Inr t \<and> decode Replace bs = Inr r \<and> subseq t r
         \<and> (\<forall>t'. decode Strict bs = Inr t' \<longrightarrow> t' = t)"
proof (induction bs rule: length_induct)
  case (1 bs)
  show ?case
  proof (cases bs)
    case Nil
    then show ?thesis by simp
  next
    case (Cons ch s)
    obtain n c where sc: "utf8_scan ch s = (n, c)" by (cases "utf8_scan ch s")
    have "length (drop (n - 1) s) < length bs" using Cons by simp
    with 1 obtain t r where ih: "decode Ignore (drop (n - 1) s) = Inr t"
      "decode Replace (drop (n - 1) s) = Inr r" "subseq t r"
      "\<forall>t'. decode Strict (drop (n - 1) s) = Inr t' \<longrightarrow> t' = t"
      by blast
    show ?thesis
    proof (cases c)
      case None
      then show ?thesis using Cons sc ih by (simp add: list_emb_Cons)
    next
      case (Some cp)
      then show ?thesis using Cons sc ih by (auto split: sum.splits)
    qed
  qed
qed

lemma remote_diff_success:
  assumes "\<forall>i<4. exit_status w (git_steps url n b tmp ! i) = Some 0"
  shows "fst (remote_diff w url n b tmp s)
         = decode Ignore (stdout (projr (fst (subprocess w (diff_cmd b) (Some tmp)))))"
proof -
  have z0: "exit_status w (clone_cmd url tmp, None) = Some 0"
    using assms [rule_format, of 0] by (simp add: git_steps_def)
  have z1: "exit_status w (fetch_cmd n, Some tmp) = Some 0"
    using assms [rule_format, of 1] by (simp add: git_steps_def)
  have z2: "exit_status w (checkout_cmd, Some tmp) = Some 0"
    using assms [rule_format, of 2] by (simp add: git_steps_def)
  have z3: "exit_status w (diff_cmd b, Some tmp) = Some 0"
    using assms [rule_format, of 3] by (simp add: git_steps_def)
  show ?thesis
    by (simp add: remote_diff_def check_run_zero [OF z0] check_run_zero [OF z1]
          check_run_zero [OF z2] check_run_zero [OF z3])
qed

lemmas utf8_eval = utf8_scan_def is_continuation_def low_bits_def

text \<open>
  Claim C7, as amended. For every byte sequence that git diff produces, decoding it to the
  diff text never fails: undecodable bytes are dropped (the source decodes with
  \<open>errors="ignore"\<close>), well-formed input is decoded as \<open>strict\<close> decodes it, and the
  result is what \<open>replace\<close> would give without the characters it puts in; so when the
  four git steps exit with status 0 the resolution yields a text.
\<close>

theorem decode_ignore_never_fails:
  "(\<exists>t. decode Ignore bs = Inr t
        \<and> (\<forall>t'. decode Strict bs = Inr t' \<longrightarrow> t' = t)
        \<and> (\<exists>r. decode Replace bs = Inr r \<and> subseq t r))
   \<and> ((\<forall>i<4. exit_status w (git_steps url n b tmp ! i) = Some 0)
        \<longrightarrow> (\<exists>t. fst (remote_diff w url n b tmp s) = Inr t))"
proof (intro conjI impI)
  show "\<exists>t. decode Ignore bs = Inr t
        \<and> (\<forall>t'. decode Strict bs = Inr t' \<longrightarrow> t' = t)
        \<and> (\<exists>r. decode Replace bs = Inr r \<and> subseq t r)"
    using decode_modes [of bs] by blast
next
  assume a: "\<forall>i<4. exit_status w (git_steps url n b tmp ! i) = Some 0"
  show "\<exists>t. fst (remote_diff w url n b tmp s) = Inr t"
    using remote_diff_success [OF a, of s]
      decode_modes [of "stdout (projr (fst (subprocess w (diff_cmd b) (Some tmp))))"]
    by auto
qed

theorem decode_ignore_never_fails_witness:
  "decode Ignore [0xE2, 0x82, 0xAC, 0xFF] = Inr [0x20AC]
   \<and> decode Strict [0xE2, 0x82, 0xAC] = Inr [0x20AC]
   \<and> decode Ignore [0xE2, 0x82, 0xAC] = Inr [0x20AC]
   \<and> (\<exists>r. decode Replace [0xE2, 0x82, 0xAC, 0xFF] = Inr r \<and> subseq [0x20AC] r)
   \<and> fst (remote_diff (sample_world False 0) (py ''https://example.org/r.git'') 7 (py ''main'')
             sample_dir start) = Inr [0x61, 0x62]"
proof -
  let ?w = "sample_world False 0"
  let ?u = "py ''https://example.org/r.git''"
  have z: "\<forall>i<4. exit_status ?w (git_steps ?u 7 (py ''main'') sample_dir ! i) = Some 0"
    by (simp add: exit_status_def sample_world_def)
  have e1: "decode Ignore [0xE2, 0x82, 0xAC, 0xFF] = Inr [0x20AC]" by (simp add: utf8_eval)
  have e2: "decode Strict [0xE2, 0x82, 0xAC] = Inr [0x20AC]" by (simp add: utf8_eval)
  from decode_ignore_never_fails [of "[0xE2, 0x82, 0xAC, 0xFF]" ?w ?u 7 "py ''main''" sample_dir start]
  have A: "\<exists>t. decode Ignore [0xE2, 0x82, 0xAC, 0xFF] = Inr t
        \<and> (\<forall>t'. decode Strict [0xE2, 0x82, 0xAC, 0xFF] = Inr t' \<longrightarrow> t' = t)
        \<and> (\<exists>r. decode Replace [0xE2, 0x82, 0xAC, 0xFF] = Inr r \<and> subseq t r)"
    and B: "(\<forall>i<4. exit_status ?w (git_steps ?u 7 (py ''main'') sample_dir ! i) = Some 0)
        \<longrightarrow> (\<exists>t. fst (remote_diff ?w ?u 7 (py ''main'') sample_dir start) = Inr t)"
    by (rule conjunct1, rule conjunct2)
  from A e1 have r: "\<exists>r. decode Replace [0xE2, 0x82, 0xAC, 0xFF] = Inr r \<and> subseq [0x20AC] r"
    by auto
  from decode_ignore_never_fails [of "[0xE2, 0x82, 0xAC]" ?w ?u 7 "py ''main''" sample_dir start] e2
  have e3: "decode Ignore [0xE2, 0x82, 0xAC] = Inr [0x20AC]" by auto
  from B z obtain t where t: "fst (remote_diff ?w ?u 7 (py ''main'') sample_dir start) = Inr t"
    by blast
  have "fst (remote_diff ?w ?u 7 (py ''main'') sample_dir start)
        = decode Ignore [0x61, 0xFF, 0x62]"
    using remote_diff_success [OF z, of start] by (simp add: sample_world_def)
  then have e4: "fst (remote_diff ?w ?u 7 (py ''main'') sample_dir start) = Inr [0x61, 0x62]"
    by (simp add: utf8_eval)
  show ?thesis using e1 e2 e3 r e4 by simp
qed

text \<open>
  The claim as stated fails: the undecodable byte \<open>FF\<close> between \<open>a\<close> and \<open>b\<close> is not
  replaced; the text is \<open>ab\<close>, where a replacing decoder gives \<open>a\<close>, \<open>U+FFFD\<close>, \<open>b\<close>.
\<close>

theorem decode_drops_counterexample:
  "decode Ignore [0x61, 0xFF, 0x62] = Inr [0x61, 0x62]
   \<and> decode Replace [0x61, 0xFF, 0x62] = Inr [0x61, 0xFFFD, 0x62]
   \<and> decode Ignore [0x61, 0xFF, 0x62] \<noteq> decode Replace [0x61, 0xFF, 0x62]"
  by (simp add: utf8_eval)

section \<open>Properties of the configuration lookups\<close>

lemma review_body_needs_config:
  assumes "fst (review_body w cfg req s) = Inr r"
  shows "(\<exists>a. subscript cfg (py ''rules'') = Inr a) \<and> (\<exists>b. subscript cfg (py ''ai_review'') = Inr b)"
  using assms by (auto simp add: review_body_def split: prod.splits sum.splits)

lemma review_Inr_body: "fst (review w cfg req s) = Inr r \<Longrightarrow> fst (review_body w cfg req s) = Inr r"
  by (auto simp add: review_def split: prod.splits sum.splits exn.splits)

lemma subscript_missing: "map_of kvs (PyStr k) = None \<Longrightarrow> subscript (PyDict kvs) k = Inl (KeyError k)"
  by (simp add: subscript_def)

lemma review_without_section:
  assumes "map_of kvs (PyStr (py ''rules'')) = None \<or> map_of kvs (PyStr (py ''ai_review'')) = None"
  shows "\<exists>d. fst (review w (PyDict kvs) req s) = Inl (HTTPException 500 d)"
proof (cases "fst (review w (PyDict kvs) req s)")
  case (Inl e)
  then show ?thesis using review_is_500 [OF Inl] by simp
next
  case (Inr r)
  then have "(\<exists>a. subscript (PyDict kvs) (py ''rules'') = Inr a)
             \<and> (\<exists>b. subscript (PyDict kvs) (py ''ai_review'') = Inr b)"
    using review_body_needs_config [OF review_Inr_body] by blast
  then show ?thesis using assms by (auto simp add: subscript_missing)
qed

lemma inline_suggestion_max_tokens:
  assumes "\<forall>k. max_tokens k = 100 \<longrightarrow> create k = create' k"
  shows "inline_suggestion f (Inr create) cfg ireq = inline_suggestion f (Inr create') cfg ireq"
proof -
  have "inline_suggestion_body (Inr create) cfg ireq = inline_suggestion_body (Inr create') cfg ireq"
    using assms by (simp add: inline_suggestion_body_def split: sum.splits)
  then show ?thesis by (simp add: inline_suggestion_def)
qed

text \<open>
  Claim C10. When the configuration is a mapping without the key \<open>rules\<close> or without the
  key \<open>ai_review\<close>, every review request fails with status 500. When it is a mapping
  without the key \<open>ai_review\<close>, the inline-suggestion endpoint calls the backend with the
  model \<open>gpt-4o-mini\<close>, the temperature 0.2 and \<open>max_tokens\<close> 100, and returns the
  stripped content the backend gives for that call. Whatever the configuration, the outcome
  depends on the backend only through calls with \<open>max_tokens\<close> 100.
\<close>

theorem config_sections_asymmetry:
  "(map_of kvs (PyStr (py ''rules'')) = None \<or> map_of kvs (PyStr (py ''ai_review'')) = None
      \<longrightarrow> (\<exists>d. fst (review w (PyDict kvs) req s) = Inl (HTTPException 500 d)))
   \<and> (map_of kvs (PyStr (py ''ai_review'')) = None
        \<and> create \<lparr>model = PyStr (py ''gpt-4o-mini''), messages = [(py ''user'', prompt ireq)],
                    temperature = PyFloat 0.2, max_tokens = 100\<rparr> = Inr response
        \<and> choices response = c # cs \<and> message c = Some msg \<and> content msg = Some tx \<and> tx \<noteq> []
      \<longrightarrow> inline_suggestion f (Inr create) (PyDict kvs) ireq = Inr \<lparr>suggestedText = strip tx\<rparr>)
   \<and> ((\<forall>k. max_tokens k = 100 \<longrightarrow> create k = create' k)
      \<longrightarrow> inline_suggestion f (Inr create) cfg ireq = inline_suggestion f (Inr create') cfg ireq)"
proof (intro conjI impI)
  assume "map_of kvs (PyStr (py ''rules'')) = None \<or> map_of kvs (PyStr (py ''ai_review'')) = None"
  then show "\<exists>d. fst (review w (PyDict kvs) req s) = Inl (HTTPException 500 d)"
    by (rule review_without_section)
next
  assume a: "map_of kvs (PyStr (py ''ai_review'')) = None
        \<and> create \<lparr>model = PyStr (py ''gpt-4o-mini''), messages = [(py ''user'', prompt ireq)],
                    temperature = PyFloat 0.2, max_tokens = 100\<rparr> = Inr response
        \<and> choices response = c # cs \<and> message c = Some msg \<and> content msg = Some tx \<and> tx \<noteq> []"
  have g: "get (PyDict kvs) (py ''ai_review'') (PyDict []) = Inr (PyDict [])"
    using a by (simp add: get_missing)
  have a1: "create \<lparr>model = PyStr (py ''gpt-4o-mini''), messages = [(py ''user'', prompt ireq)],
                    temperature = PyFloat 0.2, max_tokens = 100\<rparr> = Inr response"
    and a2: "choices response = c # cs" and a3: "message c = Some msg"
    and a4: "content msg = Some tx" and a5: "tx \<noteq> []"
    using a by simp_all
  show "inline_suggestion f (Inr create) (PyDict kvs) ireq = Inr \<lparr>suggestedText = strip tx\<rparr>"
    using g a1 a2 a3 a4 a5
    by (simp add: inline_suggestion_def inline_suggestion_body_def get_empty)
next
  assume "\<forall>k. max_tokens k = 100 \<longrightarrow> create k = create' k"
  then show "inline_suggestion f (Inr create) cfg ireq = inline_suggestion f (Inr create') cfg ireq"
    by (rule inline_suggestion_max_tokens)
qed

theorem config_sections_asymmetry_witness:
  "(\<exists>d. fst (review (sample_world False 0) rules_only_cfg bare_request start)
          = Inl (HTTPException 500 d))
   \<and> fst (review (sample_world False 0) rules_only_cfg bare_request start)
       = Inl (HTTPException 500 (apos @ py ''ai_review'' @ apos))
   \<and> inline_suggestion (\<lambda>e. []) (answering (Some (py '' x = 1 ''))) rules_only_cfg sample_line
       = Inr \<lparr>suggestedText = py ''x = 1''\<rparr>
   \<and> inline_suggestion (\<lambda>e. []) (answering (Some (py '' x = 1 ''))) rules_only_cfg sample_line
       = inline_suggestion (\<lambda>e. [])
           (Inr (\<lambda>k. if max_tokens k = 100
                      then Inr \<lparr>choices = [\<lparr>message = Some \<lparr>content = Some (py '' x = 1 '')\<rparr>\<rparr>]\<rparr>
                      else Inl (Exception [])))
           rules_only_cfg sample_line"
proof -
  let ?w = "sample_world False 0"
  let ?kvs = "[(PyStr (py ''rules''), PyDict [])]"
  let ?resp = "\<lparr>choices = [\<lparr>message = Some \<lparr>content = Some (py '' x = 1 '')\<rparr>\<rparr>]\<rparr>"
  let ?create = "\<lambda>k :: create_kwargs. (Inr ?resp :: exn + ChatCompletion)"
  let ?create' = "\<lambda>k :: create_kwargs. if max_tokens k = 100 then Inr ?resp else Inl (Exception [])"
  note T = config_sections_asymmetry
    [where kvs = "?kvs" and w = "?w" and req = bare_request and s = start
       and create = "?create" and create' = "?create'" and ireq = sample_line
       and response = "?resp" and c = "\<lparr>message = Some \<lparr>content = Some (py '' x = 1 '')\<rparr>\<rparr>"
       and cs = "[]" and msg = "\<lparr>content = Some (py '' x = 1 '')\<rparr>" and tx = "py '' x = 1 ''"
       and f = "\<lambda>e. []" and cfg = rules_only_cfg]
  have m: "map_of ?kvs (PyStr (py ''ai_review'')) = None" by (simp add: py_def)
  have ne: "py '' x = 1 '' \<noteq> []" by (simp add: py_def)
  have 1: "\<exists>d. fst (review ?w rules_only_cfg bare_request start) = Inl (HTTPException 500 d)"
    using T [THEN conjunct1] m by (simp add: rules_only_cfg_def)
  have 2: "fst (review ?w rules_only_cfg bare_request start)
           = Inl (HTTPException 500 (apos @ py ''ai_review'' @ apos))"
    by (simp add: review_def review_body_def compute_diff_def bare_request_def truthy_str_def
          rules_only_cfg_def subscript_def sample_world_def str_exn_def)
       (simp add: py_def plain_key_def)
  have s: "strip (py '' x = 1 '') = py ''x = 1''"
    by (simp add: strip_def lstrip_def rstrip_def isspace_def py_def)
  have 3: "inline_suggestion (\<lambda>e. []) (Inr ?create) rules_only_cfg sample_line
           = Inr \<lparr>suggestedText = py ''x = 1''\<rparr>"
    using T [THEN conjunct2, THEN conjunct1] m ne s by (simp add: rules_only_cfg_def)
  have 4: "inline_suggestion (\<lambda>e. []) (Inr ?create) rules_only_cfg sample_line
           = inline_suggestion (\<lambda>e. []) (Inr ?create') rules_only_cfg sample_line"
    using T [THEN conjunct2, THEN conjunct2] by simp
  show ?thesis using 1 2 3 4 by (simp add: answering_def)
qed

end
